theory Spec2Isabelle
  imports Complex_Main "HOL-Library.AList" "HOL-Library.Sublist"
begin

section \<open>Strings as Python handles them\<close>

text \<open>
  Header names and cell texts are Python \<open>str\<close> values, modelled as \<open>string\<close>.
  \<open>normalize_column_name\<close> keeps only the characters \<open>a-z\<close>, \<open>A-Z\<close>, \<open>0-9\<close>
  (the regular expression \<open>[^a-zA-Z0-9]\<close> deletes every other one) and lower-cases
  what is left; every other code point is deleted alike, so the byte-sized \<open>char\<close> of
  HOL loses nothing here.
\<close>

definition is_ascii_alnum :: "char \<Rightarrow> bool" where
  "is_ascii_alnum c =
     (c \<in> set ''abcdefghijklmnopqrstuvwxyz'' \<or>
      c \<in> set ''ABCDEFGHIJKLMNOPQRSTUVWXYZ'' \<or>
      c \<in> set ''0123456789'')"

definition lower_char :: "char \<Rightarrow> char" where
  "lower_char c =
     (case map_of (zip ''ABCDEFGHIJKLMNOPQRSTUVWXYZ'' ''abcdefghijklmnopqrstuvwxyz'') c of
        Some d \<Rightarrow> d
      | None \<Rightarrow> c)"

definition normalize_column_name :: "string \<Rightarrow> string" where
  "normalize_column_name col_name = map lower_char (filter is_ascii_alnum col_name)"

text \<open>Python's \<open>a in b\<close> on strings: \<open>a\<close> occurs in \<open>b\<close> as a contiguous run.\<close>

fun py_in :: "string \<Rightarrow> string \<Rightarrow> bool" where
  "py_in a [] = (a = [])"
| "py_in a (c # cs) = (prefix a (c # cs) \<or> py_in a cs)"

text \<open>Python's \<open>s.split(sep)\<close> for a one-character separator: one more piece than
  there are separators, so \<open>''''.split(''_'')\<close> is \<open>['''']\<close>.\<close>

fun py_split :: "char \<Rightarrow> string \<Rightarrow> string list" where
  "py_split sep [] = [[]]"
| "py_split sep (c # cs) =
     (if c = sep then [] # py_split sep cs
      else (case py_split sep cs of
              p # ps \<Rightarrow> (c # p) # ps
            | [] \<Rightarrow> [[c]]))"

section \<open>Column resolution\<close>

text \<open>
  \<open>normalized_df_columns\<close> is the dictionary comprehension
  \<open>{normalize_column_name(col): col for col in df.columns}\<close>: a later column with the
  same normalized name overwrites the value and keeps the key's place in the iteration
  order, which is what \<open>AList.update\<close> does on an association list.
\<close>

definition normalized_df_columns :: "string list \<Rightarrow> (string \<times> string) list" where
  "normalized_df_columns df_columns =
     foldl (\<lambda>d col. AList.update (normalize_column_name col) col d) [] df_columns"

text \<open>First loop of \<open>find_column\<close>: the first alias that is a key of the dictionary.\<close>

fun find_exact :: "(string \<times> string) list \<Rightarrow> string list \<Rightarrow> string option" where
  "find_exact d [] = None"
| "find_exact d (norm_name # names) =
     (case map_of d norm_name of
        Some original_name \<Rightarrow> Some original_name
      | None \<Rightarrow> find_exact d names)"

text \<open>Inner loop of the second pass: the first dictionary entry that contains the
  alias or is contained in it.\<close>

fun find_partial_in :: "string \<Rightarrow> (string \<times> string) list \<Rightarrow> string option" where
  "find_partial_in norm_name [] = None"
| "find_partial_in norm_name ((df_norm_name, original_name) # d) =
     (if py_in norm_name df_norm_name \<or> py_in df_norm_name norm_name
      then Some original_name
      else find_partial_in norm_name d)"

fun find_partial :: "(string \<times> string) list \<Rightarrow> string list \<Rightarrow> string option" where
  "find_partial d [] = None"
| "find_partial d (norm_name # names) =
     (case find_partial_in norm_name d of
        Some original_name \<Rightarrow> Some original_name
      | None \<Rightarrow> find_partial d names)"

text \<open>Third loop: the line-location keywords, tried on every dictionary entry.\<close>

fun find_line_location_keywords :: "(string \<times> string) list \<Rightarrow> string option" where
  "find_line_location_keywords [] = None"
| "find_line_location_keywords ((df_norm_name, original_name) # d) =
     (if (py_in ''line'' df_norm_name \<and> py_in ''location'' df_norm_name)
         \<or> py_in ''lineloc'' df_norm_name
      then Some original_name
      else find_line_location_keywords d)"

definition find_column :: "string list \<Rightarrow> string list \<Rightarrow> string option" where
  "find_column df_columns possible_names =
     (let d = normalized_df_columns df_columns;
          normalized_possible_names = map normalize_column_name possible_names
      in case find_exact d normalized_possible_names of
           Some c \<Rightarrow> Some c
         | None \<Rightarrow>
             (case find_partial d normalized_possible_names of
                Some c \<Rightarrow> Some c
              | None \<Rightarrow> find_line_location_keywords d))"

section \<open>Location codes\<close>

text \<open>
  \<open>parse_line_location\<close> is only ever called on a \<open>str\<close> (the caller stringifies the
  cell or passes \<open>''''\<close>), for which \<open>pd.isna\<close> is false: the guard is the emptiness
  test alone.
\<close>

definition parse_line_location :: "string \<Rightarrow> string list" where
  "parse_line_location location_string =
     (if location_string = [] then ['''', '''', '''', '''']
      else
        let parts = py_split CHR ''_'' location_string;
            result = take 4 parts @ replicate (4 - length parts) ''''
        in take 4 result)"

section \<open>The input table\<close>

text \<open>
  A cell of the DataFrame is either missing (\<open>NaN\<close>: \<open>pd.isna\<close> holds and \<open>str\<close> gives
  \<open>nan\<close>) or a value, represented by the text \<open>str\<close> gives for it. A DataFrame is its
  column labels, its index \<open>df.index\<close> (one integer label per row) and its rows, each row holding one
  cell per column. The loaders (\<open>read_csv\<close>, \<open>read_excel\<close>) give distinct column labels
  and the index \<open>0, 1, ...\<close>; \<open>default_index\<close> says the latter.
\<close>

datatype cell = NaN | Val string

fun py_str :: "cell \<Rightarrow> string" where
  "py_str NaN = ''nan''"
| "py_str (Val s) = s"

fun notna :: "cell \<Rightarrow> bool" where
  "notna NaN = False"
| "notna (Val s) = True"

record dataframe =
  columns :: "string list"
  df_index :: "int list"
  rows :: "cell list list"

definition wf_dataframe :: "dataframe \<Rightarrow> bool" where
  "wf_dataframe df =
     (distinct (columns df) \<and> list_all (\<lambda>row. length row = length (columns df)) (rows df))"

definition default_index :: "dataframe \<Rightarrow> bool" where
  "default_index df = (df_index df = map int [0..<length (rows df)])"

text \<open>
  The exceptions that can leave the row loop: \<open>KeyError\<close> from \<open>row[col]\<close>, the
  \<open>StreamlitAPIException\<close> of \<open>progress\<close> for a value outside \<open>[0.0, 1.0]\<close> (with the
  numerator and denominator of the value), and the \<open>ValueError\<close> reportlab raises when
  the text of a \<open>Paragraph\<close> does not parse as its markup (with reportlab's message).
\<close>

datatype py_exception =
    KeyError string
  | StreamlitAPIException int nat
  | ValueError string

text \<open>\<open>row[col]\<close>: the cell under the label, \<open>KeyError\<close> when there is none.\<close>

definition row_get :: "string list \<Rightarrow> cell list \<Rightarrow> string \<Rightarrow> py_exception + cell" where
  "row_get cols row col =
     (case map_of (zip cols row) col of
        None \<Rightarrow> Inl (KeyError col)
      | Some v \<Rightarrow> Inr v)"

section \<open>Resolving the schema\<close>

definition column_mappings :: "(string \<times> string list) list" where
  "column_mappings =
     [(''ASSLY'', [''assly'', ''ASSY NAME'', ''Assy Name'', ''assy name'', ''assyname'',
                   ''assy_name'', ''Assy_name'', ''Assembly'', ''Assembly Name'', ''ASSEMBLY'',
                   ''Assembly_Name'']),
      (''part_no'', [''PARTNO'', ''PARTNO.'', ''Part No'', ''Part Number'', ''PartNo'',
                     ''partnumber'', ''part no'', ''partnum'', ''PART'', ''part'',
                     ''Product Code'', ''Item Number'', ''Item ID'', ''Item No'', ''item'',
                     ''Item'']),
      (''description'', [''DESCRIPTION'', ''Description'', ''Desc'', ''Part Description'',
                         ''ItemDescription'', ''item description'', ''Product Description'',
                         ''Item Description'', ''NAME'', ''Item Name'', ''Product Name'']),
      (''Part_per_veh'', [''QYT'', ''QTY / VEH'', ''Qty/Veh'', ''Qty Bin'', ''Quantity per Bin'',
                          ''qty bin'', ''qtybin'', ''quantity bin'', ''BIN QTY'', ''BINQTY'',
                          ''QTY_BIN'', ''QTY_PER_BIN'', ''Bin Quantity'', ''BIN'']),
      (''Type'', [''TYPE'', ''type'', ''Type'', ''tyPe'', ''Type name'']),
      (''line_location'', [''LINE LOCATION'', ''Line Location'', ''line location'',
                           ''LINELOCATION'', ''linelocation'', ''Line_Location'',
                           ''line_location'', ''LINE_LOCATION'', ''LineLocation'', ''line_loc'',
                           ''lineloc'', ''LINELOC'', ''Line Loc''])]"

text \<open>
  The loop that fills \<open>found_columns\<close>. \<open>if found_col:\<close> is Python truthiness: a
  column is recorded when \<open>find_column\<close> returned a label and the label is not the
  empty string.
\<close>

fun resolve_columns ::
  "string list \<Rightarrow> (string \<times> string list) list \<Rightarrow> (string \<times> string) list
     \<Rightarrow> (string \<times> string) list" where
  "resolve_columns df_columns [] found_columns = found_columns"
| "resolve_columns df_columns ((key, possible_names) # mappings) found_columns =
     (case find_column df_columns possible_names of
        None \<Rightarrow> resolve_columns df_columns mappings found_columns
      | Some found_col \<Rightarrow>
          if found_col \<noteq> []
          then resolve_columns df_columns mappings (AList.update key found_col found_columns)
          else resolve_columns df_columns mappings found_columns)"

definition required_columns :: "string list" where
  "required_columns = [''ASSLY'', ''part_no'', ''description'']"

definition missing_required :: "(string \<times> string) list \<Rightarrow> string list" where
  "missing_required found_columns =
     filter (\<lambda>col. map_of found_columns col = None) required_columns"

section \<open>Per-record extraction\<close>

record fields =
  ASSLY :: string
  part_no :: string
  desc :: string
  Part_per_veh :: string
  Type :: string
  line_location_raw :: string

text \<open>
  \<open>str(row[found_columns.get(k, '''')]) if k in found_columns else "N/A"\<close>: the
  condition is evaluated first, so the row is read only for a resolved key.
\<close>

definition extract_required ::
  "(string \<times> string) list \<Rightarrow> string list \<Rightarrow> cell list \<Rightarrow> string \<Rightarrow> py_exception + string" where
  "extract_required found_columns cols row key =
     (case map_of found_columns key of
        None \<Rightarrow> Inr ''N/A''
      | Some col \<Rightarrow>
          (case row_get cols row col of
             Inl e \<Rightarrow> Inl e
           | Inr v \<Rightarrow> Inr (py_str v)))"

text \<open>
  \<open>str(row[...]) if k in found_columns and pd.notna(row[found_columns[k]]) else ""\<close>.
\<close>

definition extract_optional ::
  "(string \<times> string) list \<Rightarrow> string list \<Rightarrow> cell list \<Rightarrow> string \<Rightarrow> py_exception + string" where
  "extract_optional found_columns cols row key =
     (case map_of found_columns key of
        None \<Rightarrow> Inr ''''
      | Some col \<Rightarrow>
          (case row_get cols row col of
             Inl e \<Rightarrow> Inl e
           | Inr v \<Rightarrow> if notna v then Inr (py_str v) else Inr ''''))"

definition then_exc :: "py_exception + 'a \<Rightarrow> ('a \<Rightarrow> py_exception + 'b) \<Rightarrow> py_exception + 'b" where
  "then_exc x f = (case x of Inl e \<Rightarrow> Inl e | Inr v \<Rightarrow> f v)"

definition extract_fields ::
  "(string \<times> string) list \<Rightarrow> string list \<Rightarrow> cell list \<Rightarrow> py_exception + fields" where
  "extract_fields found_columns cols row =
     then_exc (extract_required found_columns cols row ''ASSLY'') (\<lambda>a.
     then_exc (extract_required found_columns cols row ''part_no'') (\<lambda>p.
     then_exc (extract_required found_columns cols row ''description'') (\<lambda>d.
     then_exc (extract_optional found_columns cols row ''Part_per_veh'') (\<lambda>q.
     then_exc (extract_optional found_columns cols row ''Type'') (\<lambda>t.
     then_exc (extract_optional found_columns cols row ''line_location'') (\<lambda>l.
       Inr \<lparr>ASSLY = a, part_no = p, desc = d, Part_per_veh = q, Type = t,
            line_location_raw = l\<rparr>))))))"

section \<open>The scannable-code payload\<close>

text \<open>The f-strings of the source, appended in its order; \<open>if Part_per_veh:\<close> is the
  test for a non-empty string.\<close>

definition qr_data :: "fields \<Rightarrow> string \<Rightarrow> string" where
  "qr_data f today_date =
     (let s0 = ''ASSLY: '' @ ASSLY f @ [CHR 0x0A] @ ''Part No: '' @ part_no f @ [CHR 0x0A]
                 @ ''Description: '' @ desc f @ [CHR 0x0A];
          s1 = (if Part_per_veh f \<noteq> [] then s0 @ ''QTY/BIN: '' @ Part_per_veh f @ [CHR 0x0A]
                else s0);
          s2 = (if Type f \<noteq> [] then s1 @ ''Type: '' @ Type f @ [CHR 0x0A] else s1);
          s3 = (if line_location_raw f \<noteq> []
                then s2 @ ''Line Location: '' @ line_location_raw f @ [CHR 0x0A] else s2)
      in s3 @ ''Date: '' @ today_date)"

section \<open>Geometry\<close>

text \<open>
  Lengths are in points, as reportlab has them: \<open>inch = 72.0\<close> and
  \<open>cm = inch / 2.54\<close>. The source computes in floating point; the model computes the
  same expressions in the reals.
\<close>

definition cm :: real where
  "cm = 72 / 2.54"

definition STICKER_WIDTH :: real where
  "STICKER_WIDTH = 10 * cm"

definition STICKER_HEIGHT :: real where
  "STICKER_HEIGHT = 15 * cm"

definition CONTENT_BOX_WIDTH :: real where
  "CONTENT_BOX_WIDTH = 10 * cm"

definition CONTENT_BOX_HEIGHT :: real where
  "CONTENT_BOX_HEIGHT = 5 * cm"

definition content_width :: real where
  "content_width = CONTENT_BOX_WIDTH - 0.2 * cm"

section \<open>The story handed to the document builder\<close>

text \<open>
  A table cell holds a plain string, a \<open>Paragraph\<close> (its text and the name of its
  style) or an \<open>Image\<close> (its PNG bytes, width and height). A flowable is a \<open>Table\<close>
  (cell data, column widths, row heights, and the name of the style list set on it) or a
  \<open>PageBreak\<close>. The generated document is the list \<open>all_elements\<close> given to
  \<open>doc.build\<close>; rendering it to PDF bytes is reportlab's part, and the page template
  (page size, margins, the border drawn on every page) is the same for every table. The
  style lists \<open>top_style\<close>, \<open>middle_style\<close>, \<open>bottom_style\<close> are constants of the source
  and are referred to by name.
\<close>

datatype content = Txt string | Paragraph string string | Image string real real

datatype flowable =
    Table (data: "content list list") (colWidths: "real list") (rowHeights: "real list")
      (tstyle: string)
  | PageBreak

text \<open>
  What \<open>st.error\<close> shows: the three messages of the source, each with the value its
  f-string interpolates.
\<close>

datatype st_error =
    MissingRequiredColumns "string list"
  | QRCodeError string
  | PDFError py_exception

text \<open>
  \<open>generate_qr_code\<close> wraps the whole encoding in \<open>try/except Exception\<close>. The
  encoder (the \<open>qrcode\<close> and \<open>PIL\<close> libraries) is a parameter: it gives the PNG bytes
  (\<open>Inr\<close>) or the text of the exception it raised (\<open>Inl\<close>).
\<close>

definition generate_qr_code ::
  "(string \<Rightarrow> string + string) \<Rightarrow> string \<Rightarrow> st_error list \<times> content option" where
  "generate_qr_code qr_encode data_string =
     (case qr_encode data_string of
        Inl e \<Rightarrow> ([QRCodeError e], None)
      | Inr png \<Rightarrow> ([], Some (Image png (1.8 * cm) (1.8 * cm))))"

definition qr_cell_of :: "content option \<Rightarrow> content" where
  "qr_cell_of qr_image =
     (case qr_image of
        Some img \<Rightarrow> img
      | None \<Rightarrow> Paragraph ''QR'' ''QRPlaceholder'')"

definition location_box :: "string \<Rightarrow> content" where
  "location_box s = (if s \<noteq> [] then Paragraph s ''location_style'' else Txt '''')"

text \<open>The three tables of one sticker. \<open>location_boxes\<close> always has four entries, so
  the four index reads are in range.\<close>

definition sticker_elements ::
  "string \<Rightarrow> real \<Rightarrow> real \<Rightarrow> real \<Rightarrow> real \<Rightarrow> real \<Rightarrow> fields \<Rightarrow> content \<Rightarrow> flowable list" where
  "sticker_elements today_date line_loc_header_width line_loc_box1_width line_loc_box2_width
       line_loc_box3_width line_loc_box4_width f qr_cell =
     (let location_boxes = parse_line_location (line_location_raw f);
          ASSLY_row_height = 0.7 * cm;
          part_row_height = 0.7 * cm;
          desc_row_height = 0.7 * cm;
          bottom_row_height = 0.6 * cm;
          location_row_height = 0.6 * cm;
          location_box_1 = location_box (location_boxes ! 0);
          location_box_2 = location_box (location_boxes ! 1);
          location_box_3 = location_box (location_boxes ! 2);
          location_box_4 = location_box (location_boxes ! 3);
          unified_table_data =
            [[Txt ''ASSLY'', Txt (ASSLY f)],
             [Txt ''PART NO'', Txt (part_no f)],
             [Txt ''PART DESC'', Txt (desc f)],
             [Txt ''PART PER VEH'', Paragraph (Part_per_veh f) ''partper_style'', qr_cell],
             [Txt ''TYPE'', Paragraph (Type f) ''Type_style'', Txt ''''],
             [Txt ''DATE'', Paragraph today_date ''date_style'', Txt ''''],
             [Txt ''LINE LOCATION'', location_box_1, location_box_2, location_box_3,
              location_box_4]];
          col_widths_top = [content_width * 0.3, content_width * 0.7];
          col_widths_middle = [content_width * 0.3, content_width * 0.3, content_width * 0.4];
          col_widths_bottom =
            [content_width * line_loc_header_width,
             content_width * line_loc_box1_width,
             content_width * line_loc_box2_width,
             content_width * line_loc_box3_width,
             content_width * line_loc_box4_width];
          row_heights = [ASSLY_row_height, part_row_height, desc_row_height, bottom_row_height,
                         bottom_row_height, bottom_row_height, location_row_height];
          top_table = Table (take 3 unified_table_data) col_widths_top (take 3 row_heights)
                        ''top_style'';
          middle_table = Table (take 3 (drop 3 unified_table_data)) col_widths_middle
                           (take 3 (drop 3 row_heights)) ''middle_style'';
          bottom_table = Table [unified_table_data ! 6] col_widths_bottom [row_heights ! 6]
                           ''bottom_style''
      in [top_table, middle_table, bottom_table])"

section \<open>The generation loop\<close>

text \<open>
  \<open>Paragraph(text, style)\<close> parses its text as markup when it is constructed and raises
  on text it cannot parse (an unclosed tag, say). The parser is reportlab's and is a
  parameter: \<open>markup_error text\<close> is the message of the exception, or \<open>None\<close> when the
  text parses. \<open>paragraph_texts\<close> lists the texts of the paragraphs one row constructs,
  in the order the source constructs them: the placeholder \<open>QR\<close> when there is no code
  image, the non-empty location boxes, the quantity, the type, the date. The first text
  rejected is the exception raised. The cells for assembly, part number and description
  are plain strings and are not parsed.
\<close>

definition paragraph_texts :: "string \<Rightarrow> fields \<Rightarrow> content option \<Rightarrow> string list" where
  "paragraph_texts today_date f qr_image =
     (case qr_image of None \<Rightarrow> [''QR''] | Some img \<Rightarrow> [])
     @ filter (\<lambda>s. s \<noteq> []) (parse_line_location (line_location_raw f))
     @ [Part_per_veh f, Type f, today_date]"

fun first_rejected :: "(string \<Rightarrow> string option) \<Rightarrow> string list \<Rightarrow> py_exception option" where
  "first_rejected markup_error [] = None"
| "first_rejected markup_error (s # ss) =
     (case markup_error s of
        Some msg \<Rightarrow> Some (ValueError msg)
      | None \<Rightarrow> first_rejected markup_error ss)"

text \<open>
  \<open>for index, row in df.iterrows()\<close>, with the messages shown so far and
  \<open>all_elements\<close> as the state; \<open>index\<close> is the row's label in the DataFrame's index.
  An exception leaves the loop at once (the enclosing \<open>try\<close> catches it). The first
  statement of the body is \<open>progress_bar.progress((index + 1) / total_rows)\<close>, which
  raises unless the value lies in \<open>[0.0, 1.0]\<close>; \<open>total_rows\<close> is positive inside the
  loop.
\<close>

fun process_rows ::
  "(string \<Rightarrow> string option) \<Rightarrow> string \<Rightarrow> (string \<Rightarrow> string + string)
     \<Rightarrow> real \<Rightarrow> real \<Rightarrow> real \<Rightarrow> real \<Rightarrow> real
     \<Rightarrow> (string \<times> string) list \<Rightarrow> string list \<Rightarrow> nat \<Rightarrow> (int \<times> cell list) list
     \<Rightarrow> st_error list \<times> flowable list
     \<Rightarrow> st_error list \<times> (py_exception + flowable list)" where
  "process_rows markup_error today_date qr_encode w0 w1 w2 w3 w4 found_columns cols total_rows
       [] (shown, all_elements) = (shown, Inr all_elements)"
| "process_rows markup_error today_date qr_encode w0 w1 w2 w3 w4 found_columns cols total_rows
       ((index, row) # rest) (shown, all_elements) =
     (if 0 \<le> index + 1 \<and> index + 1 \<le> int total_rows
      then
        (case extract_fields found_columns cols row of
           Inl e \<Rightarrow> (shown, Inl e)
         | Inr f \<Rightarrow>
             (case generate_qr_code qr_encode (qr_data f today_date) of
                (qr_shown, qr_image) \<Rightarrow>
                  (case first_rejected markup_error (paragraph_texts today_date f qr_image) of
                     Some e \<Rightarrow> (shown @ qr_shown, Inl e)
                   | None \<Rightarrow>
                       let qr_cell = qr_cell_of qr_image;
                           elements = sticker_elements today_date w0 w1 w2 w3 w4 f qr_cell;
                           all_elements1 = all_elements @ elements;
                           all_elements2 =
                             (if index < int total_rows - 1 then all_elements1 @ [PageBreak]
                              else all_elements1)
                       in process_rows markup_error today_date qr_encode w0 w1 w2 w3 w4
                            found_columns cols total_rows rest
                            (shown @ qr_shown, all_elements2))))
      else (shown, Inl (StreamlitAPIException (index + 1) total_rows)))"

text \<open>
  \<open>generate_sticker_labels\<close> returns what \<open>st.error\<close> showed and the pair the source
  returns: \<open>None\<close> for \<open>(None, None)\<close>, otherwise the document and \<open>found_columns\<close>.
  The markup parser, the generation date (\<open>datetime.now()\<close> formatted \<open>%d-%m-%Y\<close>)
  and the encoder are the run's environment and come first.
\<close>

definition generate_sticker_labels ::
  "(string \<Rightarrow> string option) \<Rightarrow> string \<Rightarrow> (string \<Rightarrow> string + string) \<Rightarrow> dataframe
     \<Rightarrow> real \<Rightarrow> real \<Rightarrow> real \<Rightarrow> real \<Rightarrow> real
     \<Rightarrow> st_error list \<times> (flowable list \<times> (string \<times> string) list) option" where
  "generate_sticker_labels markup_error today_date qr_encode df line_loc_header_width
       line_loc_box1_width line_loc_box2_width line_loc_box3_width line_loc_box4_width =
     (let found_columns = resolve_columns (columns df) column_mappings [];
          missing = missing_required found_columns
      in if missing \<noteq> [] then ([MissingRequiredColumns missing], None)
         else
           (case process_rows markup_error today_date qr_encode line_loc_header_width
                   line_loc_box1_width line_loc_box2_width line_loc_box3_width
                   line_loc_box4_width found_columns (columns df) (length (rows df))
                   (zip (df_index df) (rows df)) ([], []) of
              (shown, Inl e) \<Rightarrow> (shown @ [PDFError e], None)
            | (shown, Inr all_elements) \<Rightarrow> (shown, Some (all_elements, found_columns))))"

section \<open>Reading the specification\<close>

text \<open>\<open>sep.join(pieces)\<close>: the pieces with the separator between consecutive ones.\<close>

fun py_join :: "string \<Rightarrow> string list \<Rightarrow> string" where
  "py_join sep [] = []"
| "py_join sep [p] = p"
| "py_join sep (p # q # ps) = p @ sep @ py_join sep (q # ps)"

text \<open>Pages in sequence, a page break between consecutive pages and none after the
  last.\<close>

fun lay_out :: "flowable list list \<Rightarrow> flowable list" where
  "lay_out [] = []"
| "lay_out [page] = page"
| "lay_out (page # next_page # pages) = page @ [PageBreak] @ lay_out (next_page # pages)"

text \<open>The labeled lines of the payload as the specification lists them: three
  required lines, an optional line for each non-empty optional value, the date.\<close>

definition qr_lines :: "fields \<Rightarrow> string \<Rightarrow> string list" where
  "qr_lines f today_date =
     [''ASSLY: '' @ ASSLY f, ''Part No: '' @ part_no f, ''Description: '' @ desc f]
     @ (if Part_per_veh f = [] then [] else [''QTY/BIN: '' @ Part_per_veh f])
     @ (if Type f = [] then [] else [''Type: '' @ Type f])
     @ (if line_location_raw f = [] then [] else [''Line Location: '' @ line_location_raw f])
     @ [''Date: '' @ today_date]"


text \<open>\<open>text_view\<close> keeps the structure of a flowable (rows, columns, widths, heights,
  style) and the text of every cell, and forgets the bytes of an image.\<close>

fun erase_png :: "content \<Rightarrow> content" where
  "erase_png (Image png w h) = Image [] w h"
| "erase_png (Txt s) = Txt s"
| "erase_png (Paragraph s st) = Paragraph s st"

fun text_view :: "flowable \<Rightarrow> flowable" where
  "text_view PageBreak = PageBreak"
| "text_view (Table d cw rh st) = Table (map (map erase_png) d) cw rh st"

definition document_view ::
  "st_error list \<times> (flowable list \<times> (string \<times> string) list) option
     \<Rightarrow> (flowable list \<times> (string \<times> string) list) option" where
  "document_view result =
     (case snd result of
        None \<Rightarrow> None
      | Some (doc, found_columns) \<Rightarrow> Some (map text_view doc, found_columns))"

text \<open>The page of a record with fields \<open>f\<close>: its three tables, with the code cell
  the encoder's outcome gives; and the messages the encoder's failure shows for it.\<close>

definition sticker_page ::
  "string \<Rightarrow> (string \<Rightarrow> string + string) \<Rightarrow> real \<Rightarrow> real \<Rightarrow> real \<Rightarrow> real \<Rightarrow> real \<Rightarrow> fields
     \<Rightarrow> flowable list" where
  "sticker_page today_date qr_encode w0 w1 w2 w3 w4 f =
     sticker_elements today_date w0 w1 w2 w3 w4 f
       (qr_cell_of (snd (generate_qr_code qr_encode (qr_data f today_date))))"

definition qr_messages :: "string \<Rightarrow> (string \<Rightarrow> string + string) \<Rightarrow> fields \<Rightarrow> st_error list" where
  "qr_messages today_date qr_encode f = fst (generate_qr_code qr_encode (qr_data f today_date))"

text \<open>
  The paragraphs of a row are accepted when the markup parser accepts each of their
  texts; those of a table, when this holds for every row.
\<close>

definition row_paragraphs_accepted ::
  "(string \<Rightarrow> string option) \<Rightarrow> string \<Rightarrow> (string \<Rightarrow> string + string)
     \<Rightarrow> (string \<times> string) list \<Rightarrow> string list \<Rightarrow> cell list \<Rightarrow> bool" where
  "row_paragraphs_accepted markup_error today_date qr_encode found_columns cols row =
     (case extract_fields found_columns cols row of
        Inl e \<Rightarrow> True
      | Inr f \<Rightarrow>
          list_all (\<lambda>s. markup_error s = None)
            (paragraph_texts today_date f
               (snd (generate_qr_code qr_encode (qr_data f today_date)))))"

definition paragraphs_accepted ::
  "(string \<Rightarrow> string option) \<Rightarrow> string \<Rightarrow> (string \<Rightarrow> string + string) \<Rightarrow> dataframe \<Rightarrow> bool" where
  "paragraphs_accepted markup_error today_date qr_encode df =
     list_all
       (row_paragraphs_accepted markup_error today_date qr_encode
          (resolve_columns (columns df) column_mappings []) (columns df))
       (rows df)"

section \<open>Example inputs\<close>

definition example_columns :: "string list" where
  "example_columns = [''ASSLY'', ''PARTNO'', ''DESCRIPTION'', ''Line Location'']"

definition example_df :: dataframe where
  "example_df =
     \<lparr>columns = [''Assy Name'', ''Part No'', ''Description'', ''QTY_BIN'', ''Type'',
                 ''Line Location''],
      df_index = [0, 1],
      rows = [[Val ''FRAME'', Val ''P-100'', Val ''Bracket'', Val ''4'', NaN, Val ''A_B''],
              [Val ''AXLE'', Val ''P-200'', NaN, NaN, Val ''X'', NaN]]\<rparr>"


text \<open>A table with no header for the part number.\<close>

definition no_part_df :: dataframe where
  "no_part_df =
     \<lparr>columns = [''ASSLY'', ''DESCRIPTION'', ''Line Location''],
      df_index = [0],
      rows = [[Val ''FRAME'', Val ''Bracket'', Val ''A_B'']]\<rparr>"

definition png_encoder :: "string \<Rightarrow> string + string" where
  "png_encoder data_string = Inr (''PNG:'' @ data_string)"

definition other_png_encoder :: "string \<Rightarrow> string + string" where
  "other_png_encoder data_string = Inr (''png:'' @ data_string)"


text \<open>A markup parser that rejects the unclosed tag \<open><b>\<close>, with the message
  reportlab gives for it, and accepts every other text.\<close>

definition unclosed_bold_rejected :: "string \<Rightarrow> string option" where
  "unclosed_bold_rejected s =
     (if s = ''<b>'' then Some ''Parse error: saw </para> instead of expected </b>''
      else None)"

section \<open>Splitting and joining\<close>

lemma py_split_not_Nil: "py_split sep s \<noteq> []"
  by (induction s) (auto split: list.splits)

lemma py_join_Cons_Cons: "py_join sep ((c # p) # ps) = c # py_join sep (p # ps)"
  by (cases ps) simp_all

lemma py_join_Nil_Cons: "ps \<noteq> [] \<Longrightarrow> py_join sep ([] # ps) = sep @ py_join sep ps"
  by (cases ps) simp_all

lemma py_split_join: "py_join [sep] (py_split sep s) = s"
proof (induction s)
  case Nil
  then show ?case by simp
next
  case (Cons c cs)
  then show ?case
    by (cases "py_split sep cs")
      (auto simp: py_split_not_Nil py_join_Cons_Cons py_join_Nil_Cons simp del: py_join.simps)
qed

lemma py_split_no_sep: "p \<in> set (py_split sep s) \<Longrightarrow> sep \<notin> set p"
  by (induction s arbitrary: p) (auto split: if_splits list.splits)

lemma py_split_length: "length (py_split sep s) = Suc (length (filter (\<lambda>c. c = sep) s))"
  by (induction s) (auto split: list.splits simp: py_split_not_Nil)

lemma parse_line_location_eq:
  "parse_line_location L =
     take 4 (py_split CHR ''_'' L) @ replicate (4 - length (py_split CHR ''_'' L)) ''''"
proof (cases "L = []")
  case True
  then show ?thesis by (simp add: parse_line_location_def numeral_eq_Suc)
next
  case False
  then show ?thesis by (simp add: parse_line_location_def Let_def)
qed

lemma parse_line_location_length: "length (parse_line_location L) = 4"
  unfolding parse_line_location_eq by (simp add: min_def)

text \<open>
  Claim C2. For every string \<open>L\<close>, \<open>parse_line_location L\<close> has exactly four segments:
  the pieces of \<open>L\<close> between underscores (joining them with underscores gives \<open>L\<close>
  back), cut to the first four and padded with empty strings when there are fewer. The
  three examples of the specification hold.
\<close>

theorem parse_line_location_four_segments:
  "length (parse_line_location L) = 4
   \<and> parse_line_location L =
       take 4 (py_split CHR ''_'' L) @ replicate (4 - length (py_split CHR ''_'' L)) ''''
   \<and> py_join ''_'' (py_split CHR ''_'' L) = L
   \<and> parse_line_location ''A_B'' = [''A'', ''B'', '''', '''']
   \<and> parse_line_location ''A_B_C_D_E'' = [''A'', ''B'', ''C'', ''D'']
   \<and> parse_line_location '''' = ['''', '''', '''', '''']"
proof -
  have ex1: "parse_line_location ''A_B'' = [''A'', ''B'', '''', '''']"
    by (simp add: parse_line_location_def numeral_eq_Suc)
  have ex2: "parse_line_location ''A_B_C_D_E'' = [''A'', ''B'', ''C'', ''D'']"
    by (simp add: parse_line_location_def numeral_eq_Suc)
  have ex3: "parse_line_location '''' = ['''', '''', '''', '''']"
    by (simp add: parse_line_location_def)
  show ?thesis
    using parse_line_location_length [of L] parse_line_location_eq [of L]
      py_split_join [where sep = "CHR ''_''" and s = L] ex1 ex2 ex3
    by simp
qed

section \<open>Facts about column resolution\<close>

lemma map_of_foldl_update:
  "map_of (foldl (\<lambda>d col. AList.update (f col) col d) d0 cols) n =
     (case filter (\<lambda>c. f c = n) cols of
        [] \<Rightarrow> map_of d0 n
      | c # cs \<Rightarrow> Some (last (c # cs)))"
proof (induction cols rule: rev_induct)
  case Nil
  then show ?case by simp
next
  case (snoc x xs)
  then show ?case
    by (auto simp: update_conv' split: list.splits)
qed

lemma map_of_normalized_df_columns:
  "map_of (normalized_df_columns cols) n =
     (case filter (\<lambda>c. normalize_column_name c = n) cols of
        [] \<Rightarrow> None
      | c # cs \<Rightarrow> Some (last (c # cs)))"
  unfolding normalized_df_columns_def by (simp add: map_of_foldl_update split: list.splits)

lemma map_of_normalized_None:
  "map_of (normalized_df_columns cols) n = None \<longleftrightarrow> n \<notin> normalize_column_name ` set cols"
proof -
  have "filter (\<lambda>c. normalize_column_name c = n) cols = [] \<longleftrightarrow>
        n \<notin> normalize_column_name ` set cols"
    by (auto simp: filter_empty_conv)
  then show ?thesis
    by (cases "filter (\<lambda>c. normalize_column_name c = n) cols")
      (simp_all add: map_of_normalized_df_columns)
qed

lemma map_of_normalized_Some:
  "n \<in> normalize_column_name ` set cols \<Longrightarrow>
   map_of (normalized_df_columns cols) n =
     Some (last (filter (\<lambda>c. normalize_column_name c = n) cols))"
  using map_of_normalized_None [of cols n]
  by (cases "filter (\<lambda>c. normalize_column_name c = n) cols")
    (simp_all add: map_of_normalized_df_columns)

lemma find_exact_find:
  "find_exact d names =
     (case List.find (\<lambda>n. map_of d n \<noteq> None) names of
        None \<Rightarrow> None
      | Some n \<Rightarrow> map_of d n)"
  by (induction names) (auto split: option.splits)


lemma find_map: "List.find P (map f xs) = map_option f (List.find (P \<circ> f) xs)"
  by (induction xs) auto

lemma find_column_exact_priority:
  assumes H: "H \<in> set cols" and a: "a \<in> set A"
    and eq: "normalize_column_name H = normalize_column_name a"
  shows "\<exists>a'. List.find (\<lambda>x. normalize_column_name x \<in> normalize_column_name ` set cols) A = Some a'
           \<and> find_column cols A =
               Some (last (filter (\<lambda>c. normalize_column_name c = normalize_column_name a') cols))
           \<and> find_column cols A =
               find_exact (normalized_df_columns cols) (map normalize_column_name A)"
proof -
  let ?P = "\<lambda>x. normalize_column_name x \<in> normalize_column_name ` set cols"
  have "?P a" using H eq by (metis imageI)
  with a obtain a' where a': "List.find ?P A = Some a'"
    by (cases "List.find ?P A") (auto simp: find_None_iff)
  then have Pa': "?P a'" by (auto simp: find_Some_iff)
  have "(\<lambda>n. map_of (normalized_df_columns cols) n \<noteq> None) \<circ> normalize_column_name = ?P"
    by (auto simp: fun_eq_iff map_of_normalized_None)
  then have ex: "find_exact (normalized_df_columns cols) (map normalize_column_name A) =
      Some (last (filter (\<lambda>c. normalize_column_name c = normalize_column_name a') cols))"
    using a' Pa' by (simp add: find_exact_find find_map map_of_normalized_Some)
  then have "find_column cols A =
      Some (last (filter (\<lambda>c. normalize_column_name c = normalize_column_name a') cols))"
    by (simp add: find_column_def)
  with a' ex show ?thesis by simp
qed

lemma normalize_ex: "normalize_column_name ''Qty / Veh'' = ''qtyveh''"
  by (simp add: normalize_column_name_def is_ascii_alnum_def lower_char_def)

lemma update_values: "snd ` set (AList.update k v al) \<subseteq> insert v (snd ` set al)"
  by (induction al) auto

lemma foldl_update_values:
  "snd ` set (foldl (\<lambda>d col. AList.update (f col) col d) d0 cols) \<subseteq> snd ` set d0 \<union> set cols"
proof (induction cols rule: rev_induct)
  case Nil
  then show ?case by simp
next
  case (snoc x xs)
  let ?d = "foldl (\<lambda>d col. AList.update (f col) col d) d0 xs"
  have "snd ` set (AList.update (f x) x ?d) \<subseteq> insert x (snd ` set ?d)"
    by (rule update_values)
  also have "\<dots> \<subseteq> insert x (snd ` set d0 \<union> set xs)"
    using snoc.IH by (rule insert_mono)
  finally show ?case by simp
qed

lemma normalized_df_columns_values: "snd ` set (normalized_df_columns cols) \<subseteq> set cols"
  using foldl_update_values [of normalize_column_name "[]" cols]
  by (simp add: normalized_df_columns_def)

lemma find_exact_value: "find_exact d names = Some c \<Longrightarrow> c \<in> snd ` set d"
proof (induction names)
  case Nil
  then show ?case by simp
next
  case (Cons n names)
  show ?case
  proof (cases "map_of d n")
    case None
    with Cons show ?thesis by simp
  next
    case (Some c')
    with Cons.prems have "c' = c" by simp
    with Some have "(n, c) \<in> set d" by (simp add: map_of_SomeD)
    then show ?thesis by (rule rev_image_eqI) simp
  qed
qed

lemma find_partial_in_value: "find_partial_in n d = Some c \<Longrightarrow> c \<in> snd ` set d"
  by (induction n d rule: find_partial_in.induct) (simp_all split: if_splits)

lemma find_partial_value: "find_partial d names = Some c \<Longrightarrow> c \<in> snd ` set d"
proof (induction names)
  case Nil
  then show ?case by simp
next
  case (Cons n names)
  then show ?case
    by (cases "find_partial_in n d") (simp_all add: find_partial_in_value)
qed

lemma find_line_location_keywords_value:
  "find_line_location_keywords d = Some c \<Longrightarrow> c \<in> snd ` set d"
  by (induction d rule: find_line_location_keywords.induct) (simp_all split: if_splits)

lemma find_column_in_columns:
  assumes "find_column cols names = Some c"
  shows "c \<in> set cols"
proof -
  let ?d = "normalized_df_columns cols"
  let ?ns = "map normalize_column_name names"
  have "c \<in> snd ` set ?d"
  proof (cases "find_exact ?d ?ns")
    case (Some c')
    with assms show ?thesis by (simp add: find_column_def find_exact_value)
  next
    case None
    show ?thesis
    proof (cases "find_partial ?d ?ns")
      case (Some c')
      with None assms show ?thesis by (simp add: find_column_def find_partial_value)
    next
      case None2: None
      with None assms show ?thesis
        by (simp add: find_column_def find_line_location_keywords_value)
    qed
  qed
  with normalized_df_columns_values show ?thesis by blast
qed

lemma map_of_resolve_columns:
  "distinct (map fst ms) \<Longrightarrow>
   map_of (resolve_columns cols ms found) k =
     (case map_of ms k of
        None \<Rightarrow> map_of found k
      | Some names \<Rightarrow>
          (case find_column cols names of
             None \<Rightarrow> map_of found k
           | Some c \<Rightarrow> if c \<noteq> [] then Some c else map_of found k))"
proof (induction cols ms found rule: resolve_columns.induct)
  case (1 df_columns found_columns)
  then show ?case by simp
next
  case (2 df_columns key possible_names mappings found_columns)
  from "2.prems" have none: "map_of mappings key = None"
    by (simp add: map_of_eq_None_iff)
  from "2.prems" have d: "distinct (map fst mappings)" by simp
  show ?case
  proof (cases "find_column df_columns possible_names")
    case None
    with "2.IH"(1) [OF None d] none show ?thesis by simp
  next
    case (Some c)
    show ?thesis
    proof (cases "c = []")
      case True
      with "2.IH"(3) [OF Some _ d] Some none show ?thesis by simp
    next
      case False
      with "2.IH"(2) [OF Some _ d] Some none show ?thesis
        by (simp add: update_conv' split: option.splits)
    qed
  qed
qed

lemma resolve_columns_values:
  "snd ` set (resolve_columns cols ms found) \<subseteq> snd ` set found \<union> set cols"
proof (induction cols ms found rule: resolve_columns.induct)
  case (1 df_columns found_columns)
  then show ?case by simp
next
  case (2 df_columns key possible_names mappings found_columns)
  show ?case
  proof (cases "find_column df_columns possible_names")
    case None
    with "2.IH"(1) show ?thesis by simp
  next
    case (Some c)
    show ?thesis
    proof (cases "c = []")
      case True
      with "2.IH"(3) Some show ?thesis by simp
    next
      case False
      have "snd ` set (AList.update key c found_columns) \<subseteq> insert c (snd ` set found_columns)"
        by (rule update_values)
      moreover have "c \<in> set df_columns"
        using Some by (rule find_column_in_columns)
      ultimately have "snd ` set (AList.update key c found_columns)
          \<subseteq> snd ` set found_columns \<union> set df_columns"
        by blast
      with "2.IH"(2) [OF Some False] Some False show ?thesis by auto
    qed
  qed
qed

lemma resolve_columns_in_columns:
  assumes "map_of (resolve_columns cols ms []) k = Some c"
  shows "c \<in> set cols"
proof -
  from assms have "(k, c) \<in> set (resolve_columns cols ms [])"
    by (rule map_of_SomeD)
  then have "c \<in> snd ` set (resolve_columns cols ms [])"
    by (rule rev_image_eqI) simp
  with resolve_columns_values [of cols ms "[]"] show ?thesis by auto
qed

lemma row_get_total:
  assumes "length row = length cols" and "c \<in> set cols"
  shows "\<exists>v. row_get cols row c = Inr v"
proof -
  from assms obtain v where "map_of (zip cols row) c = Some v"
    by (metis map_of_zip_is_Some)
  then show ?thesis by (simp add: row_get_def)
qed

section \<open>Facts about the geometry\<close>

lemma content_width_eq: "content_width = 9.8 * cm"
  by (simp add: content_width_def CONTENT_BOX_WIDTH_def)

lemma location_widths_formula: "colWidths (sticker_elements today_date h b1 b2 b3 b4 f qr_cell ! 2) =
       [content_width * h, content_width * b1, content_width * b2, content_width * b3,
        content_width * b4]"
  by (simp add: sticker_elements_def Let_def)

lemma location_widths_default: "colWidths (sticker_elements today_date 0.3 0.2 0.25 0.15 0.1 f qr_cell ! 2) =
       [2.94 * cm, 1.96 * cm, 2.45 * cm, 1.47 * cm, 0.98 * cm]"
  by (simp add: location_widths_formula content_width_eq)

section \<open>Claims about resolution, payload and widths\<close>

text \<open>
  Claim C4, as amended. When the normalized form of a table header \<open>H\<close> equals that of
  an alias in \<open>A\<close>, \<open>find_column\<close> returns a header of the table whose normalized form
  equals that of an alias: the last header in table order that normalizes to the first
  alias in list order having any exact match. It is \<open>H\<close> itself when \<open>H\<close> is the only header
  whose normalized form equals a normalized alias. The result is the one of the exact
  stage: substring matches and the keyword test are not consulted. Normalization maps
  \<open>Qty / Veh\<close> to \<open>qtyveh\<close>.
\<close>

theorem find_column_exact_match:
  assumes H: "H \<in> set cols" and a: "a \<in> set A"
    and eq: "normalize_column_name H = normalize_column_name a"
  shows "(\<exists>a'. List.find (\<lambda>x. normalize_column_name x \<in> normalize_column_name ` set cols) A
                  = Some a'
              \<and> find_column cols A =
                  Some (last (filter (\<lambda>c. normalize_column_name c = normalize_column_name a')
                                cols)))
         \<and> (\<exists>H' a'. find_column cols A = Some H' \<and> H' \<in> set cols \<and> a' \<in> set A
               \<and> normalize_column_name H' = normalize_column_name a')
         \<and> find_column cols A =
             find_exact (normalized_df_columns cols) (map normalize_column_name A)
         \<and> ((\<forall>H' \<in> set cols. \<forall>a' \<in> set A.
                 normalize_column_name H' = normalize_column_name a' \<longrightarrow> H' = H)
              \<longrightarrow> find_column cols A = Some H)
         \<and> normalize_column_name ''Qty / Veh'' = ''qtyveh''"
proof -
  from find_column_exact_priority [OF H a eq] obtain a' where
    f: "List.find (\<lambda>x. normalize_column_name x \<in> normalize_column_name ` set cols) A = Some a'"
    and r: "find_column cols A =
      Some (last (filter (\<lambda>c. normalize_column_name c = normalize_column_name a') cols))"
    and e: "find_column cols A =
      find_exact (normalized_df_columns cols) (map normalize_column_name A)"
    by blast
  let ?fs = "filter (\<lambda>c. normalize_column_name c = normalize_column_name a') cols"
  from f have a'A: "a' \<in> set A"
    and "normalize_column_name a' \<in> normalize_column_name ` set cols"
    by (auto simp: find_Some_iff)
  then have ne: "?fs \<noteq> []"
    by (auto simp: filter_empty_conv)
  then have "last ?fs \<in> set ?fs" by (rule last_in_set)
  then have l1: "last ?fs \<in> set cols"
    and l2: "normalize_column_name (last ?fs) = normalize_column_name a'"
    by simp_all
  have uniq: "(\<forall>H' \<in> set cols. \<forall>a' \<in> set A.
       normalize_column_name H' = normalize_column_name a' \<longrightarrow> H' = H)
     \<longrightarrow> find_column cols A = Some H"
    using l1 l2 a'A r by auto
  from f r e l1 l2 a'A uniq normalize_ex show ?thesis by blast
qed

text \<open>
  The amended C4 at a concrete table: headers \<open>Part No\<close>, \<open>Qty / Veh\<close> and the aliases
  \<open>QYT\<close>, \<open>QTY / VEH\<close>.
\<close>

theorem find_column_exact_match_witness:
  "''Qty / Veh'' \<in> set [''Part No'', ''Qty / Veh'']
   \<and> ''QTY / VEH'' \<in> set [''QYT'', ''QTY / VEH'']
   \<and> normalize_column_name ''Qty / Veh'' = normalize_column_name ''QTY / VEH''
   \<and> find_column [''Part No'', ''Qty / Veh''] [''QYT'', ''QTY / VEH''] = Some ''Qty / Veh''"
proof -
  have h1: "''Qty / Veh'' \<in> set [''Part No'', ''Qty / Veh'']" by simp
  have h2: "''QTY / VEH'' \<in> set [''QYT'', ''QTY / VEH'']" by simp
  have h3: "normalize_column_name ''Qty / Veh'' = normalize_column_name ''QTY / VEH''"
    by (simp add: normalize_column_name_def is_ascii_alnum_def lower_char_def)
  have h4: "\<forall>H' \<in> set [''Part No'', ''Qty / Veh'']. \<forall>a' \<in> set [''QYT'', ''QTY / VEH''].
       normalize_column_name H' = normalize_column_name a' \<longrightarrow> H' = ''Qty / Veh''"
    by (simp add: normalize_column_name_def is_ascii_alnum_def lower_char_def)
  from find_column_exact_match [OF h1 h2 h3] h4 h1 h2 h3 show ?thesis by blast
qed

text \<open>
  Claim C4 as stated fails: with the headers \<open>Assembly\<close> and \<open>assly\<close> and the assembly
  aliases of the schema, the header \<open>Assembly\<close> equals an alias after normalization, yet
  the column picked is \<open>assly\<close>, whose alias comes first in the list.
\<close>

theorem find_column_first_alias_counterexample:
  "''Assembly'' \<in> set [''Assembly'', ''assly'']
   \<and> ''Assembly'' \<in> set [''assly'', ''ASSY NAME'', ''Assy Name'', ''assy name'', ''assyname'',
         ''assy_name'', ''Assy_name'', ''Assembly'', ''Assembly Name'', ''ASSEMBLY'',
         ''Assembly_Name'']
   \<and> normalize_column_name ''Assembly'' = normalize_column_name ''Assembly''
   \<and> find_column [''Assembly'', ''assly'']
         [''assly'', ''ASSY NAME'', ''Assy Name'', ''assy name'', ''assyname'',
          ''assy_name'', ''Assy_name'', ''Assembly'', ''Assembly Name'', ''ASSEMBLY'',
          ''Assembly_Name''] = Some ''assly''
   \<and> find_column [''Assembly'', ''assly'']
         [''assly'', ''ASSY NAME'', ''Assy Name'', ''assy name'', ''assyname'',
          ''assy_name'', ''Assy_name'', ''Assembly'', ''Assembly Name'', ''ASSEMBLY'',
          ''Assembly_Name''] \<noteq> Some ''Assembly''"
  by (simp add: find_column_def normalized_df_columns_def normalize_column_name_def
      is_ascii_alnum_def lower_char_def)

text \<open>
  Claim C1 evaluated on the code. For the headers \<open>ASSLY\<close>, \<open>PARTNO\<close>, \<open>DESCRIPTION\<close>,
  \<open>Line Location\<close> and the aliases of the field \<open>Type\<close>, no alias matches a header
  exactly or by substring, and \<open>find_column\<close> still returns \<open>Line Location\<close> by the
  keyword test, so the resolved mapping has \<open>Type\<close> bound to the location column.
\<close>

theorem find_column_keywords_for_any_field:
  "find_exact (normalized_df_columns example_columns)
     (map normalize_column_name [''TYPE'', ''type'', ''Type'', ''tyPe'', ''Type name'']) = None
   \<and> find_partial (normalized_df_columns example_columns)
     (map normalize_column_name [''TYPE'', ''type'', ''Type'', ''tyPe'', ''Type name'']) = None
   \<and> find_column example_columns [''TYPE'', ''type'', ''Type'', ''tyPe'', ''Type name'']
       = Some ''Line Location''
   \<and> map_of column_mappings ''Type'' = Some [''TYPE'', ''type'', ''Type'', ''tyPe'', ''Type name'']
   \<and> map_of (resolve_columns example_columns column_mappings []) ''Type''
       = Some ''Line Location''"
proof -
  have n: "normalized_df_columns example_columns =
      [(''assly'', ''ASSLY''), (''partno'', ''PARTNO''), (''description'', ''DESCRIPTION''),
       (''linelocation'', ''Line Location'')]"
    by (simp add: example_columns_def normalized_df_columns_def normalize_column_name_def
        is_ascii_alnum_def lower_char_def)
  have m: "map normalize_column_name [''TYPE'', ''type'', ''Type'', ''tyPe'', ''Type name'']
      = [''type'', ''type'', ''type'', ''type'', ''typename'']"
    by (simp add: normalize_column_name_def is_ascii_alnum_def lower_char_def)
  have e: "find_exact (normalized_df_columns example_columns)
     (map normalize_column_name [''TYPE'', ''type'', ''Type'', ''tyPe'', ''Type name'']) = None"
    unfolding n m by simp
  have p: "find_partial (normalized_df_columns example_columns)
     (map normalize_column_name [''TYPE'', ''type'', ''Type'', ''tyPe'', ''Type name'']) = None"
    unfolding n m by simp
  have k: "find_line_location_keywords (normalized_df_columns example_columns)
      = Some ''Line Location''"
    unfolding n by simp
  have c: "find_column example_columns [''TYPE'', ''type'', ''Type'', ''tyPe'', ''Type name'']
       = Some ''Line Location''"
    using e p k by (simp add: find_column_def)
  have cm: "map_of column_mappings ''Type''
      = Some [''TYPE'', ''type'', ''Type'', ''tyPe'', ''Type name'']"
    by (simp add: column_mappings_def)
  have d: "distinct (map fst column_mappings)"
    by (simp add: column_mappings_def)
  have r: "map_of (resolve_columns example_columns column_mappings []) ''Type''
       = Some ''Line Location''"
    by (simp add: map_of_resolve_columns [OF d] cm c)
  from e p c cm r show ?thesis by simp
qed

text \<open>
  Claim C6. The payload is the newline-joined list of labeled lines, in this order:
  assembly, part number, description, then quantity, type and the raw line-location
  string, each present only when its value is non-empty, then the generation date.
\<close>

theorem qr_data_labeled_lines:
  "qr_data f today_date = py_join [CHR 0x0A] (qr_lines f today_date)
   \<and> qr_lines f today_date =
       [''ASSLY: '' @ ASSLY f, ''Part No: '' @ part_no f, ''Description: '' @ desc f]
       @ (if Part_per_veh f = [] then [] else [''QTY/BIN: '' @ Part_per_veh f])
       @ (if Type f = [] then [] else [''Type: '' @ Type f])
       @ (if line_location_raw f = [] then []
          else [''Line Location: '' @ line_location_raw f])
       @ [''Date: '' @ today_date]"
  by (simp add: qr_data_def qr_lines_def Let_def)

text \<open>
  Claim C8. For any five widths, the column widths of the location table (the third
  table of a sticker) are the widths times the content width, whatever their sum; the
  content width is 9.8 cm, and the widths 0.3, 0.2, 0.25, 0.15, 0.1 give 2.94, 1.96,
  2.45, 1.47 and 0.98 cm.
\<close>

theorem location_column_widths:
  "colWidths (sticker_elements today_date h b1 b2 b3 b4 f qr_cell ! 2) =
       [content_width * h, content_width * b1, content_width * b2, content_width * b3,
        content_width * b4]
   \<and> content_width = 9.8 * cm
   \<and> colWidths (sticker_elements today_date 0.3 0.2 0.25 0.15 0.1 f qr_cell ! 2) =
       [2.94 * cm, 1.96 * cm, 2.45 * cm, 1.47 * cm, 0.98 * cm]"
  using location_widths_formula [of today_date h b1 b2 b3 b4 f qr_cell] location_widths_default [of today_date f qr_cell]
    content_width_eq
  by simp

section \<open>Facts about the generation loop\<close>

lemma extract_required_total:
  assumes "map_of found k = Some c" and "c \<in> set cols" and "length row = length cols"
  shows "\<exists>v. row_get cols row c = Inr v \<and> extract_required found cols row k = Inr (py_str v)"
proof -
  from row_get_total [OF assms(3) assms(2)] obtain v where "row_get cols row c = Inr v" ..
  with assms(1) show ?thesis by (simp add: extract_required_def)
qed

lemma found_value_in_cols:
  assumes "snd ` set found \<subseteq> set cols" and "map_of found k = Some c"
  shows "c \<in> set cols"
proof -
  from assms(2) have "(k, c) \<in> set found" by (rule map_of_SomeD)
  then have "c \<in> snd ` set found" by (rule rev_image_eqI) simp
  with assms(1) show ?thesis by blast
qed


lemma extract_optional_ok:
  assumes "snd ` set found \<subseteq> set cols" and "length row = length cols"
  shows "\<exists>s. extract_optional found cols row k = Inr s"
proof (cases "map_of found k")
  case None
  then show ?thesis by (simp add: extract_optional_def)
next
  case (Some c)
  from row_get_total [OF assms(2) found_value_in_cols [OF assms(1) Some]]
  obtain v where "row_get cols row c = Inr v" ..
  with Some show ?thesis by (simp add: extract_optional_def)
qed


lemma lay_out_Cons:
  "lay_out (p # ps) = p @ (if ps = [] then [] else PageBreak # lay_out ps)"
  by (cases ps) simp_all

lemma first_rejected_None:
  "first_rejected markup_error ss = None \<longleftrightarrow> list_all (\<lambda>s. markup_error s = None) ss"
  by (induction ss) (auto split: option.splits)

lemma process_rows_closed:
  assumes "list_all2 (\<lambda>row f. extract_fields found cols row = Inr f) rws fs"
    and "k + length rws = total_rows"
    and "list_all
           (\<lambda>f. first_rejected markup_error
                  (paragraph_texts today_date f
                     (snd (generate_qr_code qr_encode (qr_data f today_date)))) = None) fs"
  shows "process_rows markup_error today_date qr_encode w0 w1 w2 w3 w4 found cols total_rows
           (zip (map int [k..<k + length rws]) rws) (shown, all_elements) =
         (shown @ concat (map (qr_messages today_date qr_encode) fs),
          Inr (all_elements
               @ lay_out (map (sticker_page today_date qr_encode w0 w1 w2 w3 w4) fs)))"
  using assms
proof (induction rws fs arbitrary: k shown all_elements rule: list_all2_induct)
  case Nil
  then show ?case by simp
next
  case (Cons row rws f fs)
  obtain qs qi where g: "generate_qr_code qr_encode (qr_data f today_date) = (qs, qi)"
    by (cases "generate_qr_code qr_encode (qr_data f today_date)")
  from Cons.prems have idx: "Suc k + length rws = total_rows" by simp
  from Cons.hyps(2) have len: "length rws = length fs" by (rule list_all2_lengthD)
  have up: "[k..<k + length (row # rws)] = k # [Suc k..<Suc k + length rws]"
    by (subst upt_rec) simp
  from Cons.prems have prog: "0 \<le> int k + 1 \<and> int k + 1 \<le> int total_rows" by auto
  from Cons.prems have br: "int k < int total_rows - 1 \<longleftrightarrow> fs \<noteq> []"
    using len by auto
  from Cons.prems g have acc: "first_rejected markup_error (paragraph_texts today_date f qi) = None"
    by simp
  from Cons.prems have rest: "list_all
           (\<lambda>f. first_rejected markup_error
                  (paragraph_texts today_date f
                     (snd (generate_qr_code qr_encode (qr_data f today_date)))) = None) fs"
    by simp
  show ?case
    unfolding up
    using Cons.hyps(1) g prog br acc Cons.IH [OF idx rest]
    by (simp add: Let_def lay_out_Cons sticker_page_def qr_messages_def)
qed



lemma accepted_fields:
  assumes "list_all2 (\<lambda>row f. extract_fields found cols row = Inr f) rws fs"
    and "list_all (row_paragraphs_accepted markup_error today_date qr_encode found cols) rws"
  shows "list_all
           (\<lambda>f. first_rejected markup_error
                  (paragraph_texts today_date f
                     (snd (generate_qr_code qr_encode (qr_data f today_date)))) = None) fs"
  using assms
  by (induction rws fs rule: list_all2_induct)
    (simp_all add: row_paragraphs_accepted_def first_rejected_None)

lemma generate_from_fields:
  assumes fs: "list_all2
            (\<lambda>row f. extract_fields (resolve_columns (columns df) column_mappings [])
                        (columns df) row = Inr f) (rows df) fs"
    and req: "missing_required (resolve_columns (columns df) column_mappings []) = []"
    and idx: "default_index df"
    and acc: "paragraphs_accepted markup_error today_date qr_encode df"
  shows "generate_sticker_labels markup_error today_date qr_encode df w0 w1 w2 w3 w4 =
              (concat (map (qr_messages today_date qr_encode) fs),
               Some (lay_out (map (sticker_page today_date qr_encode w0 w1 w2 w3 w4) fs),
                     resolve_columns (columns df) column_mappings []))"
proof -
  from accepted_fields [OF fs] acc have a: "list_all
           (\<lambda>f. first_rejected markup_error
                  (paragraph_texts today_date f
                     (snd (generate_qr_code qr_encode (qr_data f today_date)))) = None) fs"
    by (simp add: paragraphs_accepted_def)
  from idx have z: "zip (df_index df) (rows df) =
      zip (map int [0..<0 + length (rows df)]) (rows df)"
    by (simp add: default_index_def)
  show ?thesis
    using req process_rows_closed [OF fs _ a, of 0 "length (rows df)" w0 w1 w2 w3 w4 "[]" "[]"]
    by (simp add: generate_sticker_labels_def Let_def z)
qed

section \<open>Claims about generation\<close>

lemma example_found:
  "resolve_columns (columns example_df) column_mappings [] =
     [(''ASSLY'', ''Assy Name''), (''part_no'', ''Part No''), (''description'', ''Description''),
      (''Part_per_veh'', ''QTY_BIN''), (''Type'', ''Type''),
      (''line_location'', ''Line Location'')]"
  by code_simp


lemma no_part_found:
  "resolve_columns (columns no_part_df) column_mappings [] =
     [(''ASSLY'', ''ASSLY''), (''part_no'', ''Line Location''),
      (''description'', ''DESCRIPTION''), (''Part_per_veh'', ''Line Location''),
      (''Type'', ''Line Location''), (''line_location'', ''Line Location'')]"
  by code_simp

lemma example_wf: "wf_dataframe example_df"
  by (simp add: wf_dataframe_def example_df_def)

lemma example_index: "default_index example_df"
  by (simp add: default_index_def example_df_def upt_rec)

lemma example_required:
  "missing_required (resolve_columns (columns example_df) column_mappings []) = []"
  by (simp add: example_found missing_required_def required_columns_def)

lemma example_fields:
  "list_all2
     (\<lambda>row f. extract_fields (resolve_columns (columns example_df) column_mappings [])
                 (columns example_df) row = Inr f)
     (rows example_df)
     [\<lparr>ASSLY = ''FRAME'', part_no = ''P-100'', desc = ''Bracket'', Part_per_veh = ''4'',
       Type = '''', line_location_raw = ''A_B''\<rparr>,
      \<lparr>ASSLY = ''AXLE'', part_no = ''P-200'', desc = ''nan'', Part_per_veh = '''',
       Type = ''X'', line_location_raw = ''''\<rparr>]"
  unfolding example_found
  by (simp add: example_df_def extract_fields_def then_exc_def extract_required_def
      extract_optional_def row_get_def)

lemma accepted_from_fields:
  assumes "list_all2 (\<lambda>row f. extract_fields found cols row = Inr f) rws fs"
    and "list_all
           (\<lambda>f. list_all (\<lambda>s. markup_error s = None)
                  (paragraph_texts today_date f
                     (snd (generate_qr_code qr_encode (qr_data f today_date))))) fs"
  shows "list_all (row_paragraphs_accepted markup_error today_date qr_encode found cols) rws"
  using assms
  by (induction rws fs rule: list_all2_induct) (simp_all add: row_paragraphs_accepted_def)

lemma example_accepted:
  assumes "today_date \<noteq> ''<b>''"
  shows "paragraphs_accepted unclosed_bold_rejected today_date qr_encode example_df"
  unfolding paragraphs_accepted_def
proof (rule accepted_from_fields [OF example_fields])
  have p1: "parse_line_location ''A_B'' = [''A'', ''B'', '''', '''']"
    by (simp add: parse_line_location_def numeral_eq_Suc)
  have p2: "parse_line_location '''' = ['''', '''', '''', '''']"
    by (simp add: parse_line_location_def)
  show "list_all
     (\<lambda>f. list_all (\<lambda>s. unclosed_bold_rejected s = None)
            (paragraph_texts today_date f
               (snd (generate_qr_code qr_encode (qr_data f today_date)))))
     [\<lparr>ASSLY = ''FRAME'', part_no = ''P-100'', desc = ''Bracket'', Part_per_veh = ''4'',
       Type = '''', line_location_raw = ''A_B''\<rparr>,
      \<lparr>ASSLY = ''AXLE'', part_no = ''P-200'', desc = ''nan'', Part_per_veh = '''',
       Type = ''X'', line_location_raw = ''''\<rparr>]"
    using assms
    by (simp add: paragraph_texts_def p1 p2 unclosed_bold_rejected_def split: option.splits)
qed

text \<open>
  Claim C3 evaluated on the code. For the headers \<open>ASSLY\<close>, \<open>DESCRIPTION\<close>,
  \<open>Line Location\<close> no alias of the part number matches a header exactly or by substring,
  so the part number cannot be resolved; yet the keyword test binds \<open>part_no\<close> to
  \<open>Line Location\<close>, no required field is reported missing, and a document is generated
  whose part number is the location code.
\<close>

theorem missing_part_number_goes_unreported:
  "map_of column_mappings ''part_no'' =
     Some [''PARTNO'', ''PARTNO.'', ''Part No'', ''Part Number'', ''PartNo'', ''partnumber'',
           ''part no'', ''partnum'', ''PART'', ''part'', ''Product Code'', ''Item Number'',
           ''Item ID'', ''Item No'', ''item'', ''Item'']
   \<and> find_exact (normalized_df_columns (columns no_part_df))
       (map normalize_column_name
          [''PARTNO'', ''PARTNO.'', ''Part No'', ''Part Number'', ''PartNo'', ''partnumber'',
           ''part no'', ''partnum'', ''PART'', ''part'', ''Product Code'', ''Item Number'',
           ''Item ID'', ''Item No'', ''item'', ''Item'']) = None
   \<and> find_partial (normalized_df_columns (columns no_part_df))
       (map normalize_column_name
          [''PARTNO'', ''PARTNO.'', ''Part No'', ''Part Number'', ''PartNo'', ''partnumber'',
           ''part no'', ''partnum'', ''PART'', ''part'', ''Product Code'', ''Item Number'',
           ''Item ID'', ''Item No'', ''item'', ''Item'']) = None
   \<and> map_of (resolve_columns (columns no_part_df) column_mappings []) ''part_no''
       = Some ''Line Location''
   \<and> missing_required (resolve_columns (columns no_part_df) column_mappings []) = []
   \<and> extract_fields (resolve_columns (columns no_part_df) column_mappings [])
         (columns no_part_df) [Val ''FRAME'', Val ''Bracket'', Val ''A_B'']
       = Inr \<lparr>ASSLY = ''FRAME'', part_no = ''A_B'', desc = ''Bracket'', Part_per_veh = ''A_B'',
              Type = ''A_B'', line_location_raw = ''A_B''\<rparr>
   \<and> map_option snd
         (snd (generate_sticker_labels unclosed_bold_rejected ''01-01-2025'' png_encoder
                 no_part_df 0.3 0.2 0.25 0.15 0.1))
       = Some [(''ASSLY'', ''ASSLY''), (''part_no'', ''Line Location''),
               (''description'', ''DESCRIPTION''), (''Part_per_veh'', ''Line Location''),
               (''Type'', ''Line Location''), (''line_location'', ''Line Location'')]"
proof -
  let ?names = "[''PARTNO'', ''PARTNO.'', ''Part No'', ''Part Number'', ''PartNo'',
           ''partnumber'', ''part no'', ''partnum'', ''PART'', ''part'', ''Product Code'',
           ''Item Number'', ''Item ID'', ''Item No'', ''item'', ''Item'']"
  have cm: "map_of column_mappings ''part_no'' = Some ?names"
    by (simp add: column_mappings_def)
  have n: "normalized_df_columns (columns no_part_df) =
      [(''assly'', ''ASSLY''), (''description'', ''DESCRIPTION''),
       (''linelocation'', ''Line Location'')]"
    by (simp add: no_part_df_def normalized_df_columns_def normalize_column_name_def
        is_ascii_alnum_def lower_char_def)
  have m: "map normalize_column_name ?names =
      [''partno'', ''partno'', ''partno'', ''partnumber'', ''partno'', ''partnumber'',
       ''partno'', ''partnum'', ''part'', ''part'', ''productcode'', ''itemnumber'',
       ''itemid'', ''itemno'', ''item'', ''item'']"
    by (simp add: normalize_column_name_def is_ascii_alnum_def lower_char_def)
  have e: "find_exact (normalized_df_columns (columns no_part_df))
      (map normalize_column_name ?names) = None"
    unfolding n m by simp
  have p: "find_partial (normalized_df_columns (columns no_part_df))
      (map normalize_column_name ?names) = None"
    unfolding n m by simp
  have r: "map_of (resolve_columns (columns no_part_df) column_mappings []) ''part_no''
       = Some ''Line Location''"
    by (simp add: no_part_found)
  have q: "missing_required (resolve_columns (columns no_part_df) column_mappings []) = []"
    by (simp add: no_part_found missing_required_def required_columns_def)
  have x: "extract_fields (resolve_columns (columns no_part_df) column_mappings [])
         (columns no_part_df) [Val ''FRAME'', Val ''Bracket'', Val ''A_B'']
       = Inr \<lparr>ASSLY = ''FRAME'', part_no = ''A_B'', desc = ''Bracket'', Part_per_veh = ''A_B'',
              Type = ''A_B'', line_location_raw = ''A_B''\<rparr>"
    unfolding no_part_found
    by (simp add: no_part_df_def extract_fields_def then_exc_def extract_required_def
        extract_optional_def row_get_def)
  have fs: "list_all2
     (\<lambda>row f. extract_fields (resolve_columns (columns no_part_df) column_mappings [])
                 (columns no_part_df) row = Inr f)
     (rows no_part_df)
     [\<lparr>ASSLY = ''FRAME'', part_no = ''A_B'', desc = ''Bracket'', Part_per_veh = ''A_B'',
       Type = ''A_B'', line_location_raw = ''A_B''\<rparr>]"
    using x by (simp add: no_part_df_def)
  have i: "default_index no_part_df"
    by (simp add: default_index_def no_part_df_def)
  have p1: "parse_line_location ''A_B'' = [''A'', ''B'', '''', '''']"
    by (simp add: parse_line_location_def numeral_eq_Suc)
  have a: "paragraphs_accepted unclosed_bold_rejected ''01-01-2025'' png_encoder no_part_df"
    unfolding paragraphs_accepted_def
    by (rule accepted_from_fields [OF fs])
      (simp add: paragraph_texts_def p1 unclosed_bold_rejected_def split: option.splits)
  have g: "map_option snd
         (snd (generate_sticker_labels unclosed_bold_rejected ''01-01-2025'' png_encoder
                 no_part_df 0.3 0.2 0.25 0.15 0.1))
       = Some [(''ASSLY'', ''ASSLY''), (''part_no'', ''Line Location''),
               (''description'', ''DESCRIPTION''), (''Part_per_veh'', ''Line Location''),
               (''Type'', ''Line Location''), (''line_location'', ''Line Location'')]"
    by (simp add: generate_from_fields [OF fs q i a] no_part_found)
  from cm e p r q x g show ?thesis by simp
qed













lemma qr_cell_cases:
  "qr_cell_of (snd (generate_qr_code qr_encode data_string)) =
     (case qr_encode data_string of
        Inl e \<Rightarrow> Paragraph ''QR'' ''QRPlaceholder''
      | Inr png \<Rightarrow> Image png (1.8 * cm) (1.8 * cm))"
  by (simp add: generate_qr_code_def qr_cell_of_def split: sum.splits)





lemma required_resolved:
  assumes "missing_required found = []" and "k \<in> set required_columns"
  shows "\<exists>c. map_of found k = Some c"
proof -
  from assms have "map_of found k \<noteq> None"
    by (auto simp: missing_required_def filter_empty_conv)
  then show ?thesis by auto
qed

text \<open>
  Claim C10. Once the required-column check has passed on a well-formed table, each of
  the three required keys is bound in the mapping, so for every row the conditional
  takes its first branch: the value is \<open>str\<close> of the row's cell in the resolved column,
  and the \<open>N/A\<close> branch is not taken.
\<close>

theorem required_fields_read_from_the_row:
  assumes wf: "wf_dataframe df"
    and req: "missing_required (resolve_columns (columns df) column_mappings []) = []"
    and row: "row \<in> set (rows df)"
  shows "\<exists>ca cp cd va vp vd f.
           map_of (resolve_columns (columns df) column_mappings []) ''ASSLY'' = Some ca
           \<and> map_of (resolve_columns (columns df) column_mappings []) ''part_no'' = Some cp
           \<and> map_of (resolve_columns (columns df) column_mappings []) ''description'' = Some cd
           \<and> row_get (columns df) row ca = Inr va
           \<and> row_get (columns df) row cp = Inr vp
           \<and> row_get (columns df) row cd = Inr vd
           \<and> extract_required (resolve_columns (columns df) column_mappings []) (columns df)
                row ''ASSLY'' = Inr (py_str va)
           \<and> extract_required (resolve_columns (columns df) column_mappings []) (columns df)
                row ''part_no'' = Inr (py_str vp)
           \<and> extract_required (resolve_columns (columns df) column_mappings []) (columns df)
                row ''description'' = Inr (py_str vd)
           \<and> extract_fields (resolve_columns (columns df) column_mappings []) (columns df) row
                = Inr f
           \<and> ASSLY f = py_str va \<and> part_no f = py_str vp \<and> desc f = py_str vd"
proof -
  let ?found = "resolve_columns (columns df) column_mappings []"
  have v: "snd ` set ?found \<subseteq> set (columns df)"
    using resolve_columns_values [of "columns df" column_mappings "[]"] by simp
  from wf row have l: "length row = length (columns df)"
    by (simp add: wf_dataframe_def list_all_iff)
  from required_resolved [OF req, of "''ASSLY''"] obtain ca where
    ca: "map_of ?found ''ASSLY'' = Some ca"
    by (auto simp: required_columns_def)
  from required_resolved [OF req, of "''part_no''"] obtain cp where
    cp: "map_of ?found ''part_no'' = Some cp"
    by (auto simp: required_columns_def)
  from required_resolved [OF req, of "''description''"] obtain cd where
    cd: "map_of ?found ''description'' = Some cd"
    by (auto simp: required_columns_def)
  from extract_required_total [OF ca found_value_in_cols [OF v ca] l] obtain va where
    va: "row_get (columns df) row ca = Inr va"
      "extract_required ?found (columns df) row ''ASSLY'' = Inr (py_str va)" by blast
  from extract_required_total [OF cp found_value_in_cols [OF v cp] l] obtain vp where
    vp: "row_get (columns df) row cp = Inr vp"
      "extract_required ?found (columns df) row ''part_no'' = Inr (py_str vp)" by blast
  from extract_required_total [OF cd found_value_in_cols [OF v cd] l] obtain vd where
    vd: "row_get (columns df) row cd = Inr vd"
      "extract_required ?found (columns df) row ''description'' = Inr (py_str vd)" by blast
  from extract_optional_ok [OF v l] obtain q where
    q: "extract_optional ?found (columns df) row ''Part_per_veh'' = Inr q" by blast
  from extract_optional_ok [OF v l] obtain t where
    t: "extract_optional ?found (columns df) row ''Type'' = Inr t" by blast
  from extract_optional_ok [OF v l] obtain ll where
    ll: "extract_optional ?found (columns df) row ''line_location'' = Inr ll" by blast
  let ?f = "\<lparr>ASSLY = py_str va, part_no = py_str vp, desc = py_str vd, Part_per_veh = q,
             Type = t, line_location_raw = ll\<rparr>"
  have f: "extract_fields ?found (columns df) row = Inr ?f"
    by (simp add: extract_fields_def then_exc_def va vp vd q t ll)
  have "ASSLY ?f = py_str va \<and> part_no ?f = py_str vp \<and> desc ?f = py_str vd" by simp
  with ca cp cd va vp vd f show ?thesis by blast
qed

text \<open>
  Claim C10 at the second row of the example table, whose description cell is missing:
  the description is the raw \<open>nan\<close>.
\<close>

theorem required_fields_read_from_the_row_witness:
  "wf_dataframe example_df
   \<and> missing_required (resolve_columns (columns example_df) column_mappings []) = []
   \<and> [Val ''AXLE'', Val ''P-200'', NaN, NaN, Val ''X'', NaN] \<in> set (rows example_df)
   \<and> (\<exists>f. extract_fields (resolve_columns (columns example_df) column_mappings [])
              (columns example_df) [Val ''AXLE'', Val ''P-200'', NaN, NaN, Val ''X'', NaN] = Inr f
            \<and> ASSLY f = ''AXLE'' \<and> part_no f = ''P-200'' \<and> desc f = ''nan'')"
proof -
  let ?row = "[Val ''AXLE'', Val ''P-200'', NaN, NaN, Val ''X'', NaN]"
  have h3: "?row \<in> set (rows example_df)"
    by (simp add: example_df_def)
  have c: "columns example_df = [''Assy Name'', ''Part No'', ''Description'', ''QTY_BIN'',
      ''Type'', ''Line Location'']"
    by (simp add: example_df_def)
  from required_fields_read_from_the_row [OF example_wf example_required h3]
  obtain ca cp cd va vp vd f where
    1: "map_of (resolve_columns (columns example_df) column_mappings []) ''ASSLY'' = Some ca"
       "map_of (resolve_columns (columns example_df) column_mappings []) ''part_no'' = Some cp"
       "map_of (resolve_columns (columns example_df) column_mappings []) ''description'' = Some cd"
    and 2: "row_get (columns example_df) ?row ca = Inr va"
       "row_get (columns example_df) ?row cp = Inr vp"
       "row_get (columns example_df) ?row cd = Inr vd"
    and 3: "extract_fields (resolve_columns (columns example_df) column_mappings [])
              (columns example_df) ?row = Inr f"
       "ASSLY f = py_str va" "part_no f = py_str vp" "desc f = py_str vd"
    by blast
  from 1 have "ca = ''Assy Name''" "cp = ''Part No''" "cd = ''Description''"
    by (simp_all add: example_found)
  with 2 have "va = Val ''AXLE''" "vp = Val ''P-200''" "vd = NaN"
    by (simp_all add: c row_get_def)
  with 3 have "ASSLY f = ''AXLE'' \<and> part_no f = ''P-200'' \<and> desc f = ''nan''"
    by simp
  with 3(1) example_wf example_required h3 show ?thesis by blast
qed

lemma text_view_sticker_elements:
  assumes "erase_png c = erase_png c'"
  shows "map text_view (sticker_elements today_date w0 w1 w2 w3 w4 f c) =
         map text_view (sticker_elements today_date w0 w1 w2 w3 w4 f c')"
  using assms by (simp add: sticker_elements_def Let_def)

lemma erase_png_qr_cell:
  assumes "isl (qr_encode1 p) = isl (qr_encode2 p)"
  shows "erase_png (qr_cell_of (snd (generate_qr_code qr_encode1 p))) =
         erase_png (qr_cell_of (snd (generate_qr_code qr_encode2 p)))"
  using assms
  by (cases "qr_encode1 p"; cases "qr_encode2 p") (simp_all add: qr_cell_cases)

lemma qr_image_None:
  "snd (generate_qr_code qr_encode p) = None \<longleftrightarrow> isl (qr_encode p)"
  by (cases "qr_encode p") (simp_all add: generate_qr_code_def)

lemma paragraph_texts_agree:
  assumes "(qi1 = None) = (qi2 = None)"
  shows "paragraph_texts today_date f qi1 = paragraph_texts today_date f qi2"
  using assms by (cases qi1; cases qi2) (simp_all add: paragraph_texts_def)

lemma process_rows_text_view:
  assumes agree: "\<forall>p. isl (qr_encode1 p) = isl (qr_encode2 p)"
    and acc: "map text_view all1 = map text_view all2"
  shows "map_sum id (map text_view)
           (snd (process_rows markup_error today_date qr_encode1 w0 w1 w2 w3 w4 found cols
                   total_rows rws (sh1, all1))) =
         map_sum id (map text_view)
           (snd (process_rows markup_error today_date qr_encode2 w0 w1 w2 w3 w4 found cols
                   total_rows rws (sh2, all2)))"
  using acc
proof (induction rws arbitrary: sh1 sh2 all1 all2)
  case Nil
  then show ?case by simp
next
  case (Cons labelled rws)
  obtain index row where lr: "labelled = (index, row)" by (cases labelled)
  show ?case
  proof (cases "0 \<le> index + 1 \<and> index + 1 \<le> int total_rows")
    case False
    with lr show ?thesis by auto
  next
    case prog: True
    show ?thesis
    proof (cases "extract_fields found cols row")
      case (Inl e)
      with lr prog show ?thesis by simp
    next
      case (Inr f)
      obtain qs1 qi1 where g1: "generate_qr_code qr_encode1 (qr_data f today_date) = (qs1, qi1)"
        by (cases "generate_qr_code qr_encode1 (qr_data f today_date)")
      obtain qs2 qi2 where g2: "generate_qr_code qr_encode2 (qr_data f today_date) = (qs2, qi2)"
        by (cases "generate_qr_code qr_encode2 (qr_data f today_date)")
      from agree have ag: "isl (qr_encode1 (qr_data f today_date)) =
          isl (qr_encode2 (qr_data f today_date))"
        by simp
      from ag g1 g2
        qr_image_None [of qr_encode1 "qr_data f today_date"]
        qr_image_None [of qr_encode2 "qr_data f today_date"]
      have "(qi1 = None) = (qi2 = None)" by simp
      then have pt: "paragraph_texts today_date f qi1 = paragraph_texts today_date f qi2"
        by (rule paragraph_texts_agree)
      show ?thesis
      proof (cases "first_rejected markup_error (paragraph_texts today_date f qi2)")
        case (Some e)
        with lr prog Inr g1 g2 pt show ?thesis by simp
      next
        case None
        from erase_png_qr_cell
          [of qr_encode1 "qr_data f today_date" qr_encode2, OF ag] g1 g2
        have "erase_png (qr_cell_of qi1) = erase_png (qr_cell_of qi2)"
          by simp
        then have els:
          "map text_view (sticker_elements today_date w0 w1 w2 w3 w4 f (qr_cell_of qi1)) =
           map text_view (sticker_elements today_date w0 w1 w2 w3 w4 f (qr_cell_of qi2))"
          by (rule text_view_sticker_elements)
        let ?e1 = "sticker_elements today_date w0 w1 w2 w3 w4 f (qr_cell_of qi1)"
        let ?e2 = "sticker_elements today_date w0 w1 w2 w3 w4 f (qr_cell_of qi2)"
        let ?a1 = "if index < int total_rows - 1 then (all1 @ ?e1) @ [PageBreak]
                   else all1 @ ?e1"
        let ?a2 = "if index < int total_rows - 1 then (all2 @ ?e2) @ [PageBreak]
                   else all2 @ ?e2"
        have "map text_view ?a1 = map text_view ?a2"
          using els Cons.prems by simp
        from Cons.IH [OF this, of "sh1 @ qs1" "sh2 @ qs2"] lr prog Inr g1 g2 pt None
        show ?thesis by (simp add: Let_def)
      qed
    qed
  qed
qed

text \<open>
  Claim C9, as amended. Two runs on the same table and widths with the same generation
  date, whose encoders fail on the same payloads, give the same outcome up to the bytes
  of the code images: both fail, or both return the same mapping and documents with the
  same flowables, the same table structure and the same text in every cell.
\<close>

theorem same_date_same_text:
  assumes agree: "\<forall>p. isl (qr_encode1 p) = isl (qr_encode2 p)"
  shows "document_view
           (generate_sticker_labels markup_error today_date qr_encode1 df w0 w1 w2 w3 w4) =
         document_view
           (generate_sticker_labels markup_error today_date qr_encode2 df w0 w1 w2 w3 w4)"
proof (cases "missing_required (resolve_columns (columns df) column_mappings []) = []")
  case False
  then show ?thesis by (simp add: generate_sticker_labels_def Let_def)
next
  case True
  let ?found = "resolve_columns (columns df) column_mappings []"
  let ?p1 = "process_rows markup_error today_date qr_encode1 w0 w1 w2 w3 w4 ?found (columns df)
      (length (rows df)) (zip (df_index df) (rows df)) ([], [])"
  let ?p2 = "process_rows markup_error today_date qr_encode2 w0 w1 w2 w3 w4 ?found (columns df)
      (length (rows df)) (zip (df_index df) (rows df)) ([], [])"
  obtain s1 r1 where p1: "?p1 = (s1, r1)" by (cases ?p1)
  obtain s2 r2 where p2: "?p2 = (s2, r2)" by (cases ?p2)
  from process_rows_text_view [OF agree, of "[]" "[]" markup_error today_date w0 w1 w2 w3 w4
      ?found "columns df" "length (rows df)" "zip (df_index df) (rows df)" "[]" "[]"] p1 p2
  have r: "map_sum id (map text_view) r1 = map_sum id (map text_view) r2" by simp
  show ?thesis
    using True p1 p2 r
    by (cases r1; cases r2) (simp_all add: generate_sticker_labels_def Let_def document_view_def)
qed

text \<open>
  The amended C9 at the example table, for two encoders that produce different
  bytes.
\<close>

theorem same_date_same_text_witness:
  "(\<forall>p. isl (png_encoder p) = isl (other_png_encoder p))
   \<and> document_view
       (generate_sticker_labels unclosed_bold_rejected ''01-01-2025'' png_encoder example_df
          0.3 0.2 0.25 0.15 0.1) =
     document_view
       (generate_sticker_labels unclosed_bold_rejected ''01-01-2025'' other_png_encoder
          example_df 0.3 0.2 0.25 0.15 0.1)"
proof -
  have h: "\<forall>p. isl (png_encoder p) = isl (other_png_encoder p)"
    by (simp add: png_encoder_def other_png_encoder_def)
  from same_date_same_text [OF h] h show ?thesis by blast
qed

text \<open>
  Claim C9 as stated fails: the same table and the same widths, generated on two
  different days, differ in the text of the date cell.
\<close>

theorem date_changes_text_counterexample:
  "document_view
     (generate_sticker_labels unclosed_bold_rejected ''01-01-2025'' png_encoder example_df
        0.3 0.2 0.25 0.15 0.1) \<noteq>
   document_view
     (generate_sticker_labels unclosed_bold_rejected ''02-01-2025'' png_encoder example_df
        0.3 0.2 0.25 0.15 0.1)"
proof -
  have a1: "paragraphs_accepted unclosed_bold_rejected ''01-01-2025'' png_encoder example_df"
    by (rule example_accepted) simp
  have a2: "paragraphs_accepted unclosed_bold_rejected ''02-01-2025'' png_encoder example_df"
    by (rule example_accepted) simp
  show ?thesis
    unfolding generate_from_fields [OF example_fields example_required example_index a1]
      generate_from_fields [OF example_fields example_required example_index a2]
    by (simp add: document_view_def sticker_page_def sticker_elements_def Let_def)
qed

lemma missing_required_reported:
  assumes "missing_required (resolve_columns (columns df) column_mappings []) \<noteq> []"
  shows "generate_sticker_labels markup_error today_date qr_encode df w0 w1 w2 w3 w4 =
           ([MissingRequiredColumns
               (missing_required (resolve_columns (columns df) column_mappings []))], None)"
  using assms by (simp add: generate_sticker_labels_def Let_def)


end
